theory Spec2Isabelle
  imports Main "HOL-Library.Sublist"
begin

section \<open>Hospital Management Router (backend/app/routers/hospitals.py)\<close>

text \<open>
  The router keeps one module-level list, \<open>HOSPITALS_DB\<close>, and exposes three endpoints:
  \<^item> \<open>create_hospital\<close> (POST /hospitals),
  \<^item> \<open>get_hospitals\<close> (GET /hospitals, with \<open>skip\<close> and \<open>limit\<close>),
  \<^item> \<open>get_hospital\<close> (GET /hospitals/{hospital_id}).

  The module-level list is mutable global state. Every endpoint is modelled as a function
  that takes the list as it is before the call and returns the endpoint's outcome paired
  with the list as it is after the call. A raised \<open>HTTPException\<close> is the \<open>Inl\<close> branch of
  the outcome. Python integers are unbounded and are modelled by \<open>int\<close>.
\<close>

subsection \<open>Data\<close>

text \<open>
  Modelled from the spec: the request schema \<open>HospitalCreate\<close> lives in
  \<open>app/schemas/hospital.py\<close>, which is not among the sources. The specification gives the
  create request body as the four fields name, location, total_beds and icu_beds (no id),
  the two texts being strings and the two bed counts integers. The router reads
  \<open>hospital.icu_beds\<close> and \<open>hospital.total_beds\<close> and calls \<open>hospital.model_dump()\<close>,
  which yields a dictionary of exactly the schema's fields.
\<close>

record HospitalCreate =
  name :: string
  location :: string
  total_beds :: int
  icu_beds :: int

text \<open>
  A stored hospital is a dictionary with the keys of the request plus \<open>"id"\<close>. The field
  is called \<open>id_h\<close> here because \<open>id\<close> is the identity function of HOL.
\<close>

record Hospital = HospitalCreate +
  id_h :: int

text \<open>\<open>HTTPException(status_code=..., detail=...)\<close>.\<close>

datatype http_error = HTTPException (status_code: int) (detail: string)

definition HTTP_400_BAD_REQUEST :: int where
  "HTTP_400_BAD_REQUEST = 400"

definition HTTP_404_NOT_FOUND :: int where
  "HTTP_404_NOT_FOUND = 404"

text \<open>The mock database as the module initialises it (lines 20-35).\<close>

definition HOSPITALS_DB :: "Hospital list" where
  "HOSPITALS_DB =
     [\<lparr>name = ''City General Hospital'', location = ''Delhi'',
        total_beds = 250, icu_beds = 50, id_h = 1\<rparr>,
      \<lparr>name = ''Metro Care Hospital'', location = ''Mumbai'',
        total_beds = 180, icu_beds = 30, id_h = 2\<rparr>]"

subsection \<open>Python built-ins the router relies on\<close>

text \<open>
  \<open>xs[start:stop]\<close> on a list: each bound is first adjusted against the length \<open>n\<close>
  (a negative bound counts from the end and is clamped at 0, a bound beyond \<open>n\<close> is clamped
  at \<open>n\<close>), then the elements at positions \<open>start, ..., stop - 1\<close> are returned, none when
  \<open>stop \<le> start\<close>. No bound ever raises.
\<close>

definition adjust_index :: "nat \<Rightarrow> int \<Rightarrow> nat" where
  "adjust_index n i =
     (if i < 0 then (if i + int n < 0 then 0 else nat (i + int n))
      else if int n \<le> i then n
      else nat i)"

definition py_slice :: "'a list \<Rightarrow> int \<Rightarrow> int \<Rightarrow> 'a list" where
  "py_slice xs start stop =
     (let lo = adjust_index (length xs) start;
          hi = adjust_index (length xs) stop
      in if lo < hi then take (hi - lo) (drop lo xs) else [])"

text \<open>
  \<open>str(i)\<close> for an integer, which is what the f-string \<open>{hospital_id}\<close> inserts: the
  decimal digits, most significant first, with a leading minus sign for a negative number.
  The conversion is modelled for integers of any size; CPython from 3.11 on refuses to
  convert an integer of more than \<open>sys.int_max_str_digits\<close> digits (4300 unless
  configured otherwise, 0 switching the limit off), which lies outside this model.
\<close>

definition digit_char :: "nat \<Rightarrow> char" where
  "digit_char d = ''0123456789'' ! d"

function str_nat :: "nat \<Rightarrow> string" where
  "str_nat n = (if n < 10 then [digit_char n] else str_nat (n div 10) @ [digit_char (n mod 10)])"
  by pat_completeness auto
termination
  by (relation "measure (\<lambda>n. n)") auto

declare str_nat.simps [simp del]

definition str_int :: "int \<Rightarrow> string" where
  "str_int i = (if i < 0 then CHR ''-'' # str_nat (nat (- i)) else str_nat (nat i))"

subsection \<open>The endpoints\<close>

text \<open>
  \<open>create_hospital\<close> (lines 43-64): the bed check comes first and raises before anything is
  built or stored; otherwise the dumped request gets \<open>id = len(HOSPITALS_DB) + 1\<close>, is
  appended, and is returned.
\<close>

definition create_hospital ::
  "HospitalCreate \<Rightarrow> Hospital list \<Rightarrow> (http_error + Hospital) \<times> Hospital list" where
  "create_hospital hospital db =
     (if icu_beds hospital > total_beds hospital
      then (Inl (HTTPException HTTP_400_BAD_REQUEST ''ICU beds cannot exceed total beds''), db)
      else
        (let new_hospital =
               \<lparr>name = name hospital, location = location hospital,
                total_beds = total_beds hospital, icu_beds = icu_beds hospital,
                id_h = int (length db) + 1\<rparr>
         in (Inr new_hospital, db @ [new_hospital])))"

text \<open>\<open>get_hospitals\<close> (lines 71-85): \<open>return HOSPITALS_DB[skip : skip + limit]\<close>.\<close>

definition get_hospitals :: "int \<Rightarrow> int \<Rightarrow> Hospital list \<Rightarrow> Hospital list \<times> Hospital list" where
  "get_hospitals skip limit db = (py_slice db skip (skip + limit), db)"

text \<open>
  \<open>get_hospital\<close> (lines 92-112): the \<open>for\<close> loop returns the first dictionary whose id
  equals the argument; when the loop runs out, the 404 is raised.
\<close>

fun get_hospital_loop :: "int \<Rightarrow> Hospital list \<Rightarrow> Hospital option" where
  "get_hospital_loop hospital_id [] = None"
| "get_hospital_loop hospital_id (hospital # rest) =
     (if id_h hospital = hospital_id then Some hospital
      else get_hospital_loop hospital_id rest)"

definition get_hospital :: "int \<Rightarrow> Hospital list \<Rightarrow> (http_error + Hospital) \<times> Hospital list" where
  "get_hospital hospital_id db =
     (case get_hospital_loop hospital_id db of
        Some hospital \<Rightarrow> (Inr hospital, db)
      | None \<Rightarrow>
          (Inl (HTTPException HTTP_404_NOT_FOUND
                  (''Hospital with ID '' @ str_int hospital_id @ '' not found'')), db))"

subsection \<open>Sequences of requests\<close>

text \<open>
  A request is one call of one endpoint; \<open>handle\<close> dispatches it the way the router does
  and \<open>serve\<close> runs a sequence of requests from left to right, threading the list.
\<close>

datatype request =
    Create HospitalCreate
  | ListHospitals int int
  | GetById int

datatype response =
    Record Hospital
  | Records "Hospital list"
  | Failure http_error

fun outcome :: "http_error + Hospital \<Rightarrow> response" where
  "outcome (Inl e) = Failure e"
| "outcome (Inr h) = Record h"

fun handle :: "request \<Rightarrow> Hospital list \<Rightarrow> response \<times> Hospital list" where
  "handle (Create hospital) db = (let (r, db') = create_hospital hospital db in (outcome r, db'))"
| "handle (ListHospitals skip limit) db = (let (r, db') = get_hospitals skip limit db in (Records r, db'))"
| "handle (GetById hospital_id) db = (let (r, db') = get_hospital hospital_id db in (outcome r, db'))"

fun serve :: "request list \<Rightarrow> Hospital list \<Rightarrow> Hospital list" where
  "serve [] db = db"
| "serve (r # rs) db = serve rs (snd (handle r db))"

fun is_create :: "request \<Rightarrow> bool" where
  "is_create (Create _) = True"
| "is_create _ = False"

subsection \<open>Auxiliary notions for the statements\<close>

text \<open>
  Reading a string of decimal digits back as a number; used to check that \<open>str_nat\<close>
  writes the number it is given.
\<close>

definition digit_val :: "char \<Rightarrow> nat" where
  "digit_val c = of_char c - 48"

definition decimal :: "string \<Rightarrow> nat" where
  "decimal cs = foldl (\<lambda>acc c. 10 * acc + digit_val c) 0 cs"

text \<open>The record at position \<open>k\<close> (counting from 0) carries the id \<open>k + 1\<close>.\<close>

definition ids_by_position :: "Hospital list \<Rightarrow> bool" where
  "ids_by_position db = (map id_h db = map (\<lambda>k. int k + 1) [0 ..< length db])"

text \<open>No record has more ICU beds than beds.\<close>

definition beds_ok :: "Hospital list \<Rightarrow> bool" where
  "beds_ok db = list_all (\<lambda>h. icu_beds h \<le> total_beds h) db"

section \<open>Properties\<close>

subsection \<open>Creation\<close>

text \<open>
  C1. For every creation input with \<open>icu_beds \<le> total_beds\<close>, create succeeds: the returned
  record has the id "length before the call plus one" and the name, location, total_beds
  and icu_beds of the input; that record is appended at the end of the collection, and the
  length of the collection grows by exactly one.
\<close>

theorem create_hospital_valid:
  assumes "icu_beds hospital \<le> total_beds hospital"
  shows "\<exists>h. create_hospital hospital db = (Inr h, db @ [h])
           \<and> id_h h = int (length db) + 1
           \<and> name h = name hospital \<and> location h = location hospital
           \<and> total_beds h = total_beds hospital \<and> icu_beds h = icu_beds hospital
           \<and> length (snd (create_hospital hospital db)) = length db + 1"
proof -
  from assms have "\<not> icu_beds hospital > total_beds hospital"
    by simp
  then show ?thesis
    unfolding create_hospital_def Let_def by simp
qed

theorem create_hospital_valid_witness:
  "create_hospital
     \<lparr>name = ''Sunrise Clinic'', location = ''Pune'', total_beds = 100, icu_beds = 20\<rparr>
     HOSPITALS_DB =
   (Inr \<lparr>name = ''Sunrise Clinic'', location = ''Pune'', total_beds = 100, icu_beds = 20,
          id_h = 3\<rparr>,
    HOSPITALS_DB @
      [\<lparr>name = ''Sunrise Clinic'', location = ''Pune'', total_beds = 100, icu_beds = 20,
         id_h = 3\<rparr>])"
  using create_hospital_valid
    [of "\<lparr>name = ''Sunrise Clinic'', location = ''Pune'', total_beds = 100, icu_beds = 20\<rparr>"
        HOSPITALS_DB]
  by (auto simp: HOSPITALS_DB_def)

text \<open>
  C2. For every creation input with \<open>icu_beds > total_beds\<close>, create fails with the 400
  error whose message is "ICU beds cannot exceed total beds", and the collection after the
  call is the collection before the call: nothing is appended and the length is the same.
\<close>

theorem create_hospital_invalid:
  assumes "icu_beds hospital > total_beds hospital"
  shows "create_hospital hospital db =
           (Inl (HTTPException 400 ''ICU beds cannot exceed total beds''), db)
         \<and> length (snd (create_hospital hospital db)) = length db"
  using assms by (simp add: create_hospital_def HTTP_400_BAD_REQUEST_def)

theorem create_hospital_invalid_witness:
  "create_hospital
     \<lparr>name = ''Bad Hospital'', location = ''X'', total_beds = 10, icu_beds = 50\<rparr>
     HOSPITALS_DB =
   (Inl (HTTPException 400 ''ICU beds cannot exceed total beds''), HOSPITALS_DB)"
  using create_hospital_invalid
    [of "\<lparr>name = ''Bad Hospital'', location = ''X'', total_beds = 10, icu_beds = 50\<rparr>"
        HOSPITALS_DB]
  by simp

subsection \<open>Listing with non-negative pagination\<close>

text \<open>
  With both bounds non-negative the Python slice is "drop \<open>s\<close>, then take \<open>l\<close>", whatever
  the length of the list.
\<close>

lemma py_slice_nonneg:
  "py_slice xs (int s) (int s + int l) = take l (drop s xs)"
proof (cases "s < length xs")
  case True
  then show ?thesis
    by (auto simp: py_slice_def adjust_index_def Let_def nat_add_distrib)
next
  case False
  then show ?thesis
    by (auto simp: py_slice_def adjust_index_def Let_def)
qed

lemma take_drop_nths:
  "take l (drop s xs) = map (\<lambda>k. xs ! k) [s ..< min (s + l) (length xs)]"
  by (auto simp: list_eq_iff_nth_eq min_def)

text \<open>
  C3. For every non-negative \<open>skip\<close> and non-negative \<open>limit\<close>, list returns the contiguous
  slice \<open>[skip : skip + limit]\<close> of the collection in insertion order, that is the records
  at positions \<open>skip, ..., min (skip + limit) n - 1\<close>, at most \<open>limit\<close> of them; when
  \<open>skip\<close> exceeds the length the result is empty (the endpoint has no failing outcome at
  all). On the seeded collection, list(0, 100) is the two seed records, ids 1 and 2 in
  that order, and list(5, 10) is empty.
\<close>

theorem get_hospitals_slice:
  assumes "0 \<le> skip" and "0 \<le> limit"
  shows "fst (get_hospitals skip limit db) = take (nat limit) (drop (nat skip) db)
       \<and> fst (get_hospitals skip limit db) =
           map (\<lambda>k. db ! k) [nat skip ..< min (nat skip + nat limit) (length db)]
       \<and> length (fst (get_hospitals skip limit db)) \<le> nat limit
       \<and> (int (length db) < skip \<longrightarrow> fst (get_hospitals skip limit db) = [])
       \<and> fst (get_hospitals 0 100 HOSPITALS_DB) = HOSPITALS_DB
       \<and> map id_h (fst (get_hospitals 0 100 HOSPITALS_DB)) = [1, 2]
       \<and> fst (get_hospitals 5 10 HOSPITALS_DB) = []"
proof -
  have slice: "fst (get_hospitals (int s) (int l) xs) = take l (drop s xs)" for s l xs
    by (simp add: get_hospitals_def py_slice_nonneg)
  from assms have "fst (get_hospitals skip limit db) =
      fst (get_hospitals (int (nat skip)) (int (nat limit)) db)"
    by simp
  then have general: "fst (get_hospitals skip limit db) = take (nat limit) (drop (nat skip) db)"
    by (simp only: slice)
  have positions: "fst (get_hospitals skip limit db) =
      map (\<lambda>k. db ! k) [nat skip ..< min (nat skip + nat limit) (length db)]"
    by (simp only: general take_drop_nths)
  have bounded: "length (fst (get_hospitals skip limit db)) \<le> nat limit"
    by (simp add: general)
  have beyond: "int (length db) < skip \<longrightarrow> fst (get_hospitals skip limit db) = []"
    by (simp add: general)
  have all_seeds: "fst (get_hospitals 0 100 HOSPITALS_DB) = HOSPITALS_DB"
    using slice [of 0 100 HOSPITALS_DB] by (simp add: HOSPITALS_DB_def)
  have seed_ids: "map id_h (fst (get_hospitals 0 100 HOSPITALS_DB)) = [1, 2]"
    by (simp only: all_seeds) (simp add: HOSPITALS_DB_def)
  have page: "fst (get_hospitals 5 10 HOSPITALS_DB) = []"
    using slice [of 5 10 HOSPITALS_DB] by (simp add: HOSPITALS_DB_def)
  from general positions bounded beyond all_seeds seed_ids page show ?thesis
    by blast
qed

theorem get_hospitals_slice_witness:
  "fst (get_hospitals 1 1 HOSPITALS_DB) =
     [\<lparr>name = ''Metro Care Hospital'', location = ''Mumbai'',
        total_beds = 180, icu_beds = 30, id_h = 2\<rparr>]
   \<and> fst (get_hospitals 3 100 HOSPITALS_DB) = []"
  using get_hospitals_slice [of 1 1 HOSPITALS_DB] get_hospitals_slice [of 3 100 HOSPITALS_DB]
  by (simp add: HOSPITALS_DB_def)

subsection \<open>Fetching by id\<close>

text \<open>The loop is the library's \<open>find\<close> with the predicate "the id equals the argument".\<close>

lemma get_hospital_loop_find:
  "get_hospital_loop hospital_id db = find (\<lambda>h. id_h h = hospital_id) db"
  by (induction db) simp_all

text \<open>
  C4. For every id that some record of the collection carries, getById succeeds and
  returns the first record, in insertion order, whose id equals the argument: the record
  at some position \<open>k\<close> with no matching record before \<open>k\<close>. When the ids of the collection
  are pairwise different, it is the only record with that id.
\<close>

theorem get_hospital_present:
  assumes "hospital_id \<in> id_h ` set db"
  shows "\<exists>k<length db.
           get_hospital hospital_id db = (Inr (db ! k), db)
         \<and> id_h (db ! k) = hospital_id
         \<and> (\<forall>j<k. id_h (db ! j) \<noteq> hospital_id)
         \<and> (distinct (map id_h db) \<longrightarrow>
              (\<forall>h\<in>set db. id_h h = hospital_id \<longrightarrow> h = db ! k))"
proof -
  from assms have "find (\<lambda>h. id_h h = hospital_id) db \<noteq> None"
    by (auto simp: find_None_iff)
  then obtain h where found: "find (\<lambda>h. id_h h = hospital_id) db = Some h"
    by blast
  then obtain k where k: "k < length db" "id_h (db ! k) = hospital_id" "h = db ! k"
    "\<forall>j<k. id_h (db ! j) \<noteq> hospital_id"
    unfolding find_Some_iff by blast
  have result: "get_hospital hospital_id db = (Inr (db ! k), db)"
    using found k(3) by (simp add: get_hospital_def get_hospital_loop_find)
  have unique: "h' = db ! k"
    if "distinct (map id_h db)" and "h' \<in> set db" and "id_h h' = hospital_id" for h'
  proof -
    from that(1) have "inj_on id_h (set db)"
      by (simp add: distinct_map)
    moreover from k(1) have "db ! k \<in> set db"
      by simp
    ultimately show ?thesis
      using that(2,3) k(2) by (auto dest: inj_onD)
  qed
  from k(1,2,4) result unique show ?thesis
    by blast
qed

theorem get_hospital_present_witness:
  "get_hospital 1 HOSPITALS_DB =
     (Inr \<lparr>name = ''City General Hospital'', location = ''Delhi'',
            total_beds = 250, icu_beds = 50, id_h = 1\<rparr>, HOSPITALS_DB)"
proof -
  have "(1::int) \<in> id_h ` set HOSPITALS_DB"
    by (simp add: HOSPITALS_DB_def)
  from get_hospital_present [OF this]
  obtain k where "k < length HOSPITALS_DB"
    and "get_hospital 1 HOSPITALS_DB = (Inr (HOSPITALS_DB ! k), HOSPITALS_DB)"
    and "id_h (HOSPITALS_DB ! k) = 1"
    by blast
  moreover from this(1,3) have "k = 0"
    by (cases k) (simp_all add: HOSPITALS_DB_def)
  ultimately show ?thesis
    by (simp add: HOSPITALS_DB_def)
qed

text \<open>
  \<open>str_nat\<close> writes the decimal digits of its argument: reading them back gives the
  number again.
\<close>

lemma digit_val_digit_char: "d < 10 \<Longrightarrow> digit_val (digit_char d) = d"
proof -
  assume "d < 10"
  then have "d \<in> {0, 1, 2, 3, 4, 5, 6, 7, 8, 9}"
    by auto
  then show ?thesis
    by (auto simp: digit_val_def digit_char_def)
qed

lemma decimal_str_nat: "decimal (str_nat n) = n"
proof (induction n rule: str_nat.induct)
  case (1 n)
  show ?case
  proof (cases "n < 10")
    case True
    then show ?thesis
      by (subst str_nat.simps) (simp add: decimal_def digit_val_digit_char)
  next
    case False
    with 1 have "decimal (str_nat (n div 10)) = n div 10"
      by (simp add: decimal_def)
    with False show ?thesis
      by (subst str_nat.simps) (simp add: decimal_def digit_val_digit_char)
  qed
qed

text \<open>
  The digits \<open>str_nat\<close> writes are decimal digits only, there is at least one, and the
  first is not a zero unless the number is zero.
\<close>

lemma digit_char_digit: "d < 10 \<Longrightarrow> digit_char d \<in> set ''0123456789''"
proof -
  assume "d < 10"
  then have "d \<in> {0, 1, 2, 3, 4, 5, 6, 7, 8, 9}"
    by auto
  then show ?thesis
    by (auto simp: digit_char_def)
qed

lemma digit_char_zero: "d < 10 \<Longrightarrow> digit_char d = CHR ''0'' \<Longrightarrow> d = 0"
proof -
  assume "d < 10" and zero: "digit_char d = CHR ''0''"
  then have "d \<in> {0, 1, 2, 3, 4, 5, 6, 7, 8, 9}"
    by auto
  with zero show ?thesis
    by (auto simp: digit_char_def)
qed

lemma str_nat_digits: "set (str_nat n) \<subseteq> set ''0123456789''"
proof (induction n rule: str_nat.induct)
  case (1 n)
  show ?case
  proof (cases "n < 10")
    case True
    then show ?thesis
      using digit_char_digit [of n] by (subst str_nat.simps) simp
  next
    case False
    with 1 have "set (str_nat (n div 10)) \<subseteq> set ''0123456789''"
      by simp
    with False show ?thesis
      using digit_char_digit [of "n mod 10"] by (subst str_nat.simps) simp
  qed
qed

lemma str_nat_nonempty: "str_nat n \<noteq> []"
  by (subst str_nat.simps) simp

lemma str_nat_no_leading_zero: "0 < n \<Longrightarrow> hd (str_nat n) \<noteq> CHR ''0''"
proof (induction n rule: str_nat.induct)
  case (1 n)
  show ?case
  proof (cases "n < 10")
    case True
    with "1.prems" show ?thesis
      using digit_char_zero [of n] by (subst str_nat.simps) auto
  next
    case False
    then have "0 < n div 10"
      by simp
    with 1 False have "hd (str_nat (n div 10)) \<noteq> CHR ''0''"
      by simp
    with False show ?thesis
      by (subst str_nat.simps) (simp add: str_nat_nonempty)
  qed
qed

text \<open>Three renderings computed: a positive id, zero and a negative id.\<close>

lemma str_int_999: "str_int 999 = ''999''"
  by (simp add: str_int_def str_nat.simps digit_char_def)

lemma str_int_0: "str_int 0 = ''0''"
  by (simp add: str_int_def str_nat.simps digit_char_def)

lemma str_int_neg_42: "str_int (- 42) = ''-42''"
  by (simp add: str_int_def str_nat.simps digit_char_def)

text \<open>
  Hence \<open>str_int\<close> is the canonical decimal numeral of its argument: for a non-negative
  number its digits, for a negative number a minus sign followed by the digits of the
  absolute value.
\<close>

lemma str_int_nonneg:
  assumes "0 \<le> i"
  shows "decimal (str_int i) = nat i"
    and "set (str_int i) \<subseteq> set ''0123456789''"
    and "0 < i \<Longrightarrow> hd (str_int i) \<noteq> CHR ''0''"
    and "i = 0 \<Longrightarrow> str_int i = ''0''"
proof -
  from assms have eq: "str_int i = str_nat (nat i)"
    by (simp add: str_int_def)
  show "decimal (str_int i) = nat i"
    by (simp only: eq decimal_str_nat)
  show "set (str_int i) \<subseteq> set ''0123456789''"
    by (simp only: eq str_nat_digits)
  show "hd (str_int i) \<noteq> CHR ''0''" if "0 < i"
    using that by (simp only: eq) (simp add: str_nat_no_leading_zero)
  show "str_int i = ''0''" if "i = 0"
    using that by (simp add: str_int_0)
qed

lemma str_int_neg:
  assumes "i < 0"
  shows "\<exists>ds. str_int i = CHR ''-'' # ds \<and> decimal ds = nat (- i)
           \<and> set ds \<subseteq> set ''0123456789'' \<and> hd ds \<noteq> CHR ''0''"
proof (intro exI conjI)
  from assms show "str_int i = CHR ''-'' # str_nat (nat (- i))"
    by (simp add: str_int_def)
  show "decimal (str_nat (nat (- i))) = nat (- i)"
    by (rule decimal_str_nat)
  show "set (str_nat (nat (- i))) \<subseteq> set ''0123456789''"
    by (rule str_nat_digits)
  from assms show "hd (str_nat (nat (- i))) \<noteq> CHR ''0''"
    by (simp add: str_nat_no_leading_zero)
qed

text \<open>
  C5. For every id that no record of the collection carries, getById fails with the 404
  error and the collection after the call is the collection before the call. The message
  is "Hospital with ID ", the requested id, " not found", so it contains the words
  "not found" and the requested id: the part between the two fixed texts is the decimal
  numeral of the id, which read back as a number gives the id again (digits only, no
  leading zero, "0" for zero, and a minus sign before the digits of a negative id).
\<close>

theorem get_hospital_absent:
  assumes "hospital_id \<notin> id_h ` set db"
  shows "get_hospital hospital_id db =
           (Inl (HTTPException 404 (''Hospital with ID '' @ str_int hospital_id @ '' not found'')), db)
       \<and> sublist (str_int hospital_id)
           (''Hospital with ID '' @ str_int hospital_id @ '' not found'')
       \<and> sublist ''not found''
           (''Hospital with ID '' @ str_int hospital_id @ '' not found'')
       \<and> (0 \<le> hospital_id \<longrightarrow>
            decimal (str_int hospital_id) = nat hospital_id
          \<and> set (str_int hospital_id) \<subseteq> set ''0123456789''
          \<and> (0 < hospital_id \<longrightarrow> hd (str_int hospital_id) \<noteq> CHR ''0'')
          \<and> (hospital_id = 0 \<longrightarrow> str_int hospital_id = ''0''))
       \<and> (hospital_id < 0 \<longrightarrow>
            (\<exists>ds. str_int hospital_id = CHR ''-'' # ds
                \<and> decimal ds = nat (- hospital_id)
                \<and> set ds \<subseteq> set ''0123456789''
                \<and> hd ds \<noteq> CHR ''0''))"
proof -
  from assms have "find (\<lambda>h. id_h h = hospital_id) db = None"
    by (auto simp: find_None_iff)
  then have raised: "get_hospital hospital_id db =
      (Inl (HTTPException 404 (''Hospital with ID '' @ str_int hospital_id @ '' not found'')), db)"
    by (simp add: get_hospital_def get_hospital_loop_find HTTP_404_NOT_FOUND_def)
  have id_shown: "sublist (str_int hospital_id)
      (''Hospital with ID '' @ str_int hospital_id @ '' not found'')"
    by (rule sublist_appendI)
  have "''Hospital with ID '' @ str_int hospital_id @ '' not found'' =
      (''Hospital with ID '' @ str_int hospital_id @ '' '') @ ''not found'' @ []"
    by simp
  then have words_shown: "sublist ''not found''
      (''Hospital with ID '' @ str_int hospital_id @ '' not found'')"
    by (simp only: sublist_appendI)
  have rendered: "0 \<le> hospital_id \<longrightarrow>
        decimal (str_int hospital_id) = nat hospital_id
      \<and> set (str_int hospital_id) \<subseteq> set ''0123456789''
      \<and> (0 < hospital_id \<longrightarrow> hd (str_int hospital_id) \<noteq> CHR ''0'')
      \<and> (hospital_id = 0 \<longrightarrow> str_int hospital_id = ''0'')"
    using str_int_nonneg [of hospital_id] by blast
  have signed: "hospital_id < 0 \<longrightarrow>
      (\<exists>ds. str_int hospital_id = CHR ''-'' # ds
          \<and> decimal ds = nat (- hospital_id)
          \<and> set ds \<subseteq> set ''0123456789''
          \<and> hd ds \<noteq> CHR ''0'')"
    using str_int_neg [of hospital_id] by blast
  from raised id_shown words_shown rendered signed show ?thesis
    by blast
qed

theorem get_hospital_absent_witness:
  "get_hospital 999 HOSPITALS_DB =
     (Inl (HTTPException 404 ''Hospital with ID 999 not found''), HOSPITALS_DB)
   \<and> sublist ''999'' ''Hospital with ID 999 not found''
   \<and> decimal ''999'' = 999
   \<and> get_hospital 0 HOSPITALS_DB =
     (Inl (HTTPException 404 ''Hospital with ID 0 not found''), HOSPITALS_DB)
   \<and> get_hospital (- 42) HOSPITALS_DB =
     (Inl (HTTPException 404 ''Hospital with ID -42 not found''), HOSPITALS_DB)
   \<and> decimal ''42'' = 42"
proof -
  have absent: "(999::int) \<notin> id_h ` set HOSPITALS_DB" "(0::int) \<notin> id_h ` set HOSPITALS_DB"
    "(- 42::int) \<notin> id_h ` set HOSPITALS_DB"
    by (simp_all add: HOSPITALS_DB_def)
  from get_hospital_absent [OF absent(1)] get_hospital_absent [OF absent(2)]
    get_hospital_absent [OF absent(3)]
  show ?thesis
    by (simp add: str_int_999 str_int_0 str_int_neg_42)
qed

subsection \<open>Invariants over sequences of requests\<close>

text \<open>
  A request either leaves the list as it is, or it is an accepted creation and appends the
  one record built from the input and the length of the list.
\<close>

lemma handle_db_cases:
  "snd (handle r db) = db \<or>
   (\<exists>hospital. r = Create hospital \<and> icu_beds hospital \<le> total_beds hospital \<and>
      snd (handle r db) =
        db @ [\<lparr>name = name hospital, location = location hospital,
               total_beds = total_beds hospital, icu_beds = icu_beds hospital,
               id_h = int (length db) + 1\<rparr>])"
proof (cases r)
  case (Create hospital)
  then show ?thesis
    by (simp add: create_hospital_def Let_def)
next
  case (ListHospitals skip limit)
  then show ?thesis
    by (simp add: get_hospitals_def)
next
  case (GetById hospital_id)
  then show ?thesis
    by (simp add: get_hospital_def split: option.split)
qed

text \<open>A property of the initial list that every request preserves holds after any sequence.\<close>

lemma serve_invariant:
  assumes "P db"
    and "\<And>r db'. P db' \<Longrightarrow> P (snd (handle r db'))"
  shows "P (serve rs db)"
  using assms(1)
proof (induction rs arbitrary: db)
  case Nil
  then show ?case by simp
next
  case (Cons r rs)
  from Cons.prems have "P (snd (handle r db))"
    by (rule assms(2))
  then show ?case
    by (simp add: Cons.IH)
qed

lemma ids_by_position_seed: "ids_by_position HOSPITALS_DB"
  by (simp add: ids_by_position_def HOSPITALS_DB_def upt_rec)

lemma ids_by_position_handle:
  assumes "ids_by_position db"
  shows "ids_by_position (snd (handle r db))"
  using handle_db_cases [of r db] assms
  by (auto simp: ids_by_position_def)

lemma ids_by_position_serve: "ids_by_position (serve rs HOSPITALS_DB)"
  by (rule serve_invariant [where P = ids_by_position, OF ids_by_position_seed ids_by_position_handle])

lemma ids_by_position_nth:
  assumes "ids_by_position db" and "k < length db"
  shows "id_h (db ! k) = int k + 1"
proof -
  from assms(2) have "id_h (db ! k) = map id_h db ! k"
    by simp
  also from assms have "\<dots> = int k + 1"
    by (simp add: ids_by_position_def)
  finally show ?thesis .
qed

text \<open>
  C6. Starting from the seeded list (ids 1 and 2) and applying any sequence of create, list
  and getById requests, every record's id is a positive integer, the ids are pairwise
  different, the record at position \<open>k\<close> has the id \<open>k + 1\<close> (the length of the list at
  the moment it was appended, plus one), and the ids increase strictly in insertion order.
\<close>

theorem ids_positive_unique_increasing:
  "(\<forall>h \<in> set (serve rs HOSPITALS_DB). 0 < id_h h)
   \<and> distinct (map id_h (serve rs HOSPITALS_DB))
   \<and> (\<forall>k < length (serve rs HOSPITALS_DB). id_h (serve rs HOSPITALS_DB ! k) = int k + 1)
   \<and> sorted_wrt (<) (map id_h (serve rs HOSPITALS_DB))"
proof -
  define db where "db = serve rs HOSPITALS_DB"
  have pos: "ids_by_position db"
    unfolding db_def by (rule ids_by_position_serve)
  have nth: "\<forall>k < length db. id_h (db ! k) = int k + 1"
    using pos by (simp add: ids_by_position_nth)
  have positive: "\<forall>h \<in> set db. 0 < id_h h"
  proof
    fix h assume "h \<in> set db"
    then obtain k where "k < length db" "db ! k = h"
      by (auto simp: in_set_conv_nth)
    with nth show "0 < id_h h"
      by auto
  qed
  have increasing: "sorted_wrt (<) (map id_h db)"
    using nth by (auto simp: sorted_wrt_iff_nth_less)
  have unique: "distinct (map id_h db)"
    using nth by (auto simp: distinct_conv_nth)
  from positive unique nth increasing show ?thesis
    unfolding db_def by blast
qed

text \<open>One concrete run: two accepted creations, one rejected creation and one lookup.\<close>

lemma serve_example_creates:
  "serve [Create \<lparr>name = ''Sunrise Clinic'', location = ''Pune'', total_beds = 100, icu_beds = 20\<rparr>,
          Create \<lparr>name = ''Bad Hospital'', location = ''X'', total_beds = 10, icu_beds = 50\<rparr>,
          GetById 3,
          Create \<lparr>name = ''Lakeside'', location = ''Goa'', total_beds = 40, icu_beds = 4\<rparr>]
     HOSPITALS_DB =
   HOSPITALS_DB @
     [\<lparr>name = ''Sunrise Clinic'', location = ''Pune'', total_beds = 100, icu_beds = 20, id_h = 3\<rparr>,
      \<lparr>name = ''Lakeside'', location = ''Goa'', total_beds = 40, icu_beds = 4, id_h = 4\<rparr>]"
  by code_simp

theorem ids_positive_unique_increasing_witness:
  "map id_h
     (serve [Create \<lparr>name = ''Sunrise Clinic'', location = ''Pune'', total_beds = 100, icu_beds = 20\<rparr>,
             Create \<lparr>name = ''Bad Hospital'', location = ''X'', total_beds = 10, icu_beds = 50\<rparr>,
             GetById 3,
             Create \<lparr>name = ''Lakeside'', location = ''Goa'', total_beds = 40, icu_beds = 4\<rparr>]
        HOSPITALS_DB) = [1, 2, 3, 4]
   \<and> distinct [1, 2, 3, 4 :: int] \<and> sorted_wrt (<) [1, 2, 3, 4 :: int]"
  using ids_positive_unique_increasing
    [of "[Create \<lparr>name = ''Sunrise Clinic'', location = ''Pune'', total_beds = 100, icu_beds = 20\<rparr>,
          Create \<lparr>name = ''Bad Hospital'', location = ''X'', total_beds = 10, icu_beds = 50\<rparr>,
          GetById 3,
          Create \<lparr>name = ''Lakeside'', location = ''Goa'', total_beds = 40, icu_beds = 4\<rparr>]"]
  unfolding serve_example_creates
  by (simp add: HOSPITALS_DB_def)

lemma beds_ok_handle:
  assumes "beds_ok db"
  shows "beds_ok (snd (handle r db))"
  using handle_db_cases [of r db] assms
  by (auto simp: beds_ok_def)

text \<open>
  C7. The two seed records satisfy \<open>icu_beds \<le> total_beds\<close>; create leaves the list
  untouched for an input that violates it; every request preserves "all records satisfy
  it"; hence after any sequence of requests from the seeded list every record satisfies
  \<open>icu_beds \<le> total_beds\<close>.
\<close>

theorem beds_invariant:
  "(\<forall>h \<in> set HOSPITALS_DB. icu_beds h \<le> total_beds h)
   \<and> (total_beds hospital < icu_beds hospital \<longrightarrow> snd (create_hospital hospital db) = db)
   \<and> ((\<forall>h \<in> set db. icu_beds h \<le> total_beds h) \<longrightarrow>
        (\<forall>h \<in> set (snd (handle r db)). icu_beds h \<le> total_beds h))
   \<and> (\<forall>h \<in> set (serve rs HOSPITALS_DB). icu_beds h \<le> total_beds h)"
proof -
  have seed: "beds_ok HOSPITALS_DB"
    by (simp add: beds_ok_def HOSPITALS_DB_def)
  have rejected: "total_beds hospital < icu_beds hospital \<longrightarrow>
      snd (create_hospital hospital db) = db"
    by (simp add: create_hospital_def)
  have step: "beds_ok db \<longrightarrow> beds_ok (snd (handle r db))"
    by (simp add: beds_ok_handle)
  have "beds_ok (serve rs HOSPITALS_DB)"
    by (rule serve_invariant [where P = beds_ok, OF seed beds_ok_handle])
  with seed rejected step show ?thesis
    by (simp add: beds_ok_def list_all_iff)
qed

theorem beds_invariant_witness:
  "map (\<lambda>h. (icu_beds h, total_beds h))
     (serve [Create \<lparr>name = ''Sunrise Clinic'', location = ''Pune'', total_beds = 100, icu_beds = 20\<rparr>,
             Create \<lparr>name = ''Bad Hospital'', location = ''X'', total_beds = 10, icu_beds = 50\<rparr>,
             GetById 3,
             Create \<lparr>name = ''Lakeside'', location = ''Goa'', total_beds = 40, icu_beds = 4\<rparr>]
        HOSPITALS_DB) = [(50, 250), (30, 180), (20, 100), (4, 40)]
   \<and> snd (create_hospital
            \<lparr>name = ''Bad Hospital'', location = ''X'', total_beds = 10, icu_beds = 50\<rparr>
            HOSPITALS_DB) = HOSPITALS_DB"
  using beds_invariant
    [where hospital = "\<lparr>name = ''Bad Hospital'', location = ''X'', total_beds = 10, icu_beds = 50\<rparr>"
       and db = HOSPITALS_DB and r = "ListHospitals 0 100"
       and rs = "[Create \<lparr>name = ''Sunrise Clinic'', location = ''Pune'', total_beds = 100, icu_beds = 20\<rparr>,
          Create \<lparr>name = ''Bad Hospital'', location = ''X'', total_beds = 10, icu_beds = 50\<rparr>,
          GetById 3,
          Create \<lparr>name = ''Lakeside'', location = ''Goa'', total_beds = 40, icu_beds = 4\<rparr>]"]
  unfolding serve_example_creates
  by (simp add: HOSPITALS_DB_def)

subsection \<open>Read-only endpoints\<close>

lemma serve_reads:
  assumes "\<not> list_ex is_create rs"
  shows "serve rs db = db"
  using assms
proof (induction rs)
  case Nil
  show ?case by simp
next
  case (Cons r rs)
  from Cons.prems have "\<not> is_create r"
    by simp
  then have "snd (handle r db) = db"
    by (cases r) (simp_all add: get_hospitals_def get_hospital_def split: option.split)
  with Cons show ?case
    by simp
qed

text \<open>
  C8. list and getById leave the collection as it is; therefore a second call of list with
  the same \<open>skip\<close> and \<open>limit\<close>, or of getById with the same id, returns what the first
  call returned, also with any number of list and getById requests (but no create) in
  between.
\<close>

theorem reads_leave_collection:
  "snd (get_hospitals skip limit db) = db
   \<and> snd (get_hospital hospital_id db) = db
   \<and> fst (get_hospitals skip limit (snd (get_hospitals skip limit db))) =
       fst (get_hospitals skip limit db)
   \<and> fst (get_hospital hospital_id (snd (get_hospital hospital_id db))) =
       fst (get_hospital hospital_id db)
   \<and> (\<not> list_ex is_create rs \<longrightarrow>
        fst (get_hospitals skip limit (serve rs db)) = fst (get_hospitals skip limit db)
      \<and> fst (get_hospital hospital_id (serve rs db)) = fst (get_hospital hospital_id db))"
proof -
  have list_frame: "snd (get_hospitals skip limit db) = db"
    by (simp add: get_hospitals_def)
  have get_frame: "snd (get_hospital hospital_id db) = db"
    by (simp add: get_hospital_def split: option.split)
  have "\<not> list_ex is_create rs \<longrightarrow> serve rs db = db"
    by (simp add: serve_reads)
  with list_frame get_frame show ?thesis
    by simp
qed

theorem reads_leave_collection_witness:
  "fst (get_hospital 2 (serve [ListHospitals 0 100, GetById 2, GetById 999] HOSPITALS_DB)) =
     fst (get_hospital 2 HOSPITALS_DB)
   \<and> fst (get_hospitals 0 1 (serve [ListHospitals 0 100, GetById 2, GetById 999] HOSPITALS_DB)) =
     [\<lparr>name = ''City General Hospital'', location = ''Delhi'',
        total_beds = 250, icu_beds = 50, id_h = 1\<rparr>]"
proof -
  have reads: "\<not> list_ex is_create [ListHospitals 0 100, GetById 2, GetById 999]"
    by simp
  have "fst (get_hospitals 0 1 HOSPITALS_DB) =
      [\<lparr>name = ''City General Hospital'', location = ''Delhi'',
         total_beds = 250, icu_beds = 50, id_h = 1\<rparr>]"
    by (simp add: HOSPITALS_DB_def get_hospitals_def py_slice_def adjust_index_def)
  with reads
    reads_leave_collection [of 0 1 HOSPITALS_DB 2 "[ListHospitals 0 100, GetById 2, GetById 999]"]
  show ?thesis
    by simp
qed

subsection \<open>Negative pagination parameters\<close>

text \<open>
  C9, as stated, fails when \<open>limit\<close> equals the length of the collection: on the seeded
  list of two records, list(-1, 2) is the slice \<open>[-1 : 1]\<close>, which is empty, not the last
  record.
\<close>

theorem negative_skip_limit_equal_length_counterexample:
  "(1::nat) \<le> length HOSPITALS_DB
   \<and> int (length HOSPITALS_DB) \<le> 2
   \<and> fst (get_hospitals (- 1) 2 HOSPITALS_DB) = []
   \<and> fst (get_hospitals (- 1) 2 HOSPITALS_DB) \<noteq> [last HOSPITALS_DB]"
  by (simp add: HOSPITALS_DB_def get_hospitals_def py_slice_def adjust_index_def)

lemma py_slice_last:
  assumes "xs \<noteq> []"
  shows "py_slice xs (- 1) (limit - 1) = (if int (length xs) < limit then [last xs] else [])"
proof (cases "int (length xs) < limit")
  case True
  from assms obtain ys y where xs: "xs = ys @ [y]"
    by (cases xs rule: rev_cases) auto
  have lo: "adjust_index (length xs) (- 1) = length ys"
    by (simp add: xs adjust_index_def)
  from True have hi: "adjust_index (length xs) (limit - 1) = Suc (length ys)"
    by (auto simp: xs adjust_index_def)
  have "py_slice xs (- 1) (limit - 1) = take (Suc (length ys) - length ys) (drop (length ys) xs)"
    by (simp add: py_slice_def Let_def lo hi)
  also have "\<dots> = [last xs]"
    by (simp add: xs)
  finally show ?thesis
    using True by simp
next
  case False
  from assms have lo: "adjust_index (length xs) (- 1) = length xs - 1"
    by (auto simp: adjust_index_def)
  from False have "adjust_index (length xs) (limit - 1) \<le> length xs - 1"
    by (auto simp: adjust_index_def)
  with lo False show ?thesis
    by (simp add: py_slice_def Let_def)
qed

lemma py_slice_butlast: "py_slice xs 0 (- 1) = butlast xs"
proof (cases "xs = []")
  case True
  then show ?thesis
    by (simp add: py_slice_def adjust_index_def)
next
  case False
  then have "adjust_index (length xs) (- 1) = length xs - 1"
    by (auto simp: adjust_index_def)
  moreover have "adjust_index (length xs) 0 = 0"
    by (simp add: adjust_index_def)
  ultimately show ?thesis
    by (simp add: py_slice_def Let_def butlast_conv_take)
qed

text \<open>
  C9, amended. Negative parameters follow Python's slice semantics: for a non-empty
  collection of length \<open>n\<close>, list(-1, limit) returns exactly the last record when
  \<open>limit > n\<close> and the empty sequence when \<open>limit \<le> n\<close>, and list(0, -1) returns all
  records except the last.
\<close>

theorem get_hospitals_negative:
  assumes "db \<noteq> []"
  shows "(int (length db) < limit \<longrightarrow> fst (get_hospitals (- 1) limit db) = [last db])
       \<and> (limit \<le> int (length db) \<longrightarrow> fst (get_hospitals (- 1) limit db) = [])
       \<and> fst (get_hospitals 0 (- 1) db) = butlast db"
  using assms by (simp add: get_hospitals_def py_slice_last py_slice_butlast)

theorem get_hospitals_negative_witness:
  "fst (get_hospitals (- 1) 100 HOSPITALS_DB) =
     [\<lparr>name = ''Metro Care Hospital'', location = ''Mumbai'',
        total_beds = 180, icu_beds = 30, id_h = 2\<rparr>]
   \<and> fst (get_hospitals (- 1) 3 HOSPITALS_DB) =
     [\<lparr>name = ''Metro Care Hospital'', location = ''Mumbai'',
        total_beds = 180, icu_beds = 30, id_h = 2\<rparr>]
   \<and> fst (get_hospitals 0 (- 1) HOSPITALS_DB) =
     [\<lparr>name = ''City General Hospital'', location = ''Delhi'',
        total_beds = 250, icu_beds = 50, id_h = 1\<rparr>]"
proof -
  have "HOSPITALS_DB \<noteq> []"
    by (simp add: HOSPITALS_DB_def)
  from get_hospitals_negative [OF this, of 100] get_hospitals_negative [OF this, of 3]
  show ?thesis
    by (simp add: HOSPITALS_DB_def)
qed

subsection \<open>Bed counts are not checked for sign\<close>

text \<open>
  C10. create compares the two bed counts with each other and with nothing else: for any
  integers with \<open>icu_beds \<le> total_beds\<close> it succeeds and appends the record with the
  bed counts as given, negative ones included (for example total_beds = -5 and
  icu_beds = -10).
\<close>

theorem create_hospital_negative_beds:
  assumes "icu_beds hospital \<le> total_beds hospital"
  shows "\<exists>h. fst (create_hospital hospital db) = Inr h
           \<and> snd (create_hospital hospital db) = db @ [h]
           \<and> total_beds h = total_beds hospital
           \<and> icu_beds h = icu_beds hospital
           \<and> (total_beds hospital < 0 \<longrightarrow> total_beds h < 0 \<and> icu_beds h < 0)"
proof -
  let ?h = "\<lparr>name = name hospital, location = location hospital,
             total_beds = total_beds hospital, icu_beds = icu_beds hospital,
             id_h = int (length db) + 1\<rparr>"
  from assms have "create_hospital hospital db = (Inr ?h, db @ [?h])"
    by (simp add: create_hospital_def Let_def)
  moreover from assms have "total_beds hospital < 0 \<longrightarrow> total_beds ?h < 0 \<and> icu_beds ?h < 0"
    by simp
  ultimately show ?thesis
    by (intro exI [of _ ?h]) simp
qed

theorem create_hospital_negative_beds_witness:
  "create_hospital \<lparr>name = ''Nowhere'', location = ''Void'', total_beds = - 5, icu_beds = - 10\<rparr>
     HOSPITALS_DB =
   (Inr \<lparr>name = ''Nowhere'', location = ''Void'', total_beds = - 5, icu_beds = - 10, id_h = 3\<rparr>,
    HOSPITALS_DB @
      [\<lparr>name = ''Nowhere'', location = ''Void'', total_beds = - 5, icu_beds = - 10, id_h = 3\<rparr>])"
  using create_hospital_negative_beds
    [of "\<lparr>name = ''Nowhere'', location = ''Void'', total_beds = - 5, icu_beds = - 10\<rparr>"
        HOSPITALS_DB]
  by (auto simp: HOSPITALS_DB_def create_hospital_def Let_def)

end
